theory Spec2Isabelle
  imports Main
begin

section \<open>Values exchanged with the outside\<close>

text \<open>
  The model covers the authenticator part of \<open>WebPlatform\<close> in
  \<open>packages/app/src/lib/platform.ts\<close>: \<open>supportsAuthType\<close>, the two prepare
  dispatchers, \<open>registerAuthenticator\<close>, \<open>getAuthToken\<close>,
  \<open>supportsPlatformAuthenticator\<close> and \<open>registerPlatformAuthenticator\<close>.

  \<open>AuthType\<close> is an enum of \<open>@padloc/core/src/mfa\<close>. The file names five of its
  members; \<open>OtherAuthType\<close> stands for any further member or run-time value, which is
  what reaches the \<open>default\<close> branch of the two \<open>switch\<close> statements.
\<close>

datatype AuthType =
    Email
  | WebAuthnPlatform
  | WebAuthnPortable
  | Totp
  | OpenID
  | OtherAuthType string

text \<open>
  \<open>AuthPurpose\<close> is an enum declared outside the file; the flows only pass its values
  on, so a member is represented by its name.
\<close>

type_synonym AuthPurpose = string

text \<open>
  \<open>ErrorCode\<close> of \<open>@padloc/core/src/error\<close>: the two members the file uses, and
  \<open>OtherErrorCode\<close> for every other one (a transport failure of the api, say).
\<close>

datatype ErrorCode =
    AUTHENTICATION_FAILED
  | NOT_SUPPORTED
  | OtherErrorCode string

text \<open>
  What a rejected promise carries: \<open>new Err(code, message?)\<close>, or the \<open>TypeError\<close> of
  a property read on \<open>null\<close> or \<open>undefined\<close>.
\<close>

datatype thrown =
    Err ErrorCode "string option"
  | TypeError

text \<open>
  The payloads typed \<open>any\<close> in the source (challenge data, prepared response data,
  what \<open>prompt\<close> resolves to). Numbers are integers here, so \<open>NaN\<close> is not
  represented.
\<close>

datatype js_value =
    JUndefined
  | JNull
  | JBool bool
  | JNum int
  | JStr string
  | JObj "(string \<times> js_value) list"

text \<open>The truth value JavaScript gives a value in \<open>!x\<close> and \<open>x ? a : b\<close>.\<close>

fun truthy :: "js_value \<Rightarrow> bool" where
  "truthy JUndefined = False"
| "truthy JNull = False"
| "truthy (JBool b) = b"
| "truthy (JNum n) = (n \<noteq> 0)"
| "truthy (JStr s) = (s \<noteq> [])"
| "truthy (JObj kvs) = True"

text \<open>
  The property read \<open>v.k\<close>: a \<open>TypeError\<close> on \<open>null\<close> and \<open>undefined\<close>, the stored
  value on an object that has the key, \<open>undefined\<close> otherwise.
\<close>

fun get_prop :: "js_value \<Rightarrow> string \<Rightarrow> thrown + js_value" where
  "get_prop JUndefined k = Inl TypeError"
| "get_prop JNull k = Inl TypeError"
| "get_prop (JObj kvs) k = Inr (case map_of kvs k of None \<Rightarrow> JUndefined | Some v \<Rightarrow> v)"
| "get_prop v k = Inr JUndefined"

text \<open>
  \<open>DeviceInfo\<close> is a class of \<open>@padloc/core/src/platform\<close>; the flows pass it through
  unread, so a value is an opaque label.
\<close>

datatype DeviceInfo = DeviceInfo string

section \<open>Parameters and responses of the api\<close>

text \<open>
  The classes of \<open>@padloc/core/src/api\<close>, with the fields the file writes (parameters)
  or reads (responses). Field names carry a prefix, since record fields share one name
  space in HOL: \<open>srp_type\<close> is \<open>type\<close> of \<open>StartRegisterAuthenticatorParams\<close>, and so
  on. An optional field is an \<open>option\<close>; an omitted \<open>data\<close> is \<open>JUndefined\<close>.
\<close>

record StartRegisterAuthenticatorParams =
  srp_purposes :: "AuthPurpose list"
  srp_type :: AuthType
  srp_data :: js_value
  srp_device :: "DeviceInfo option"

record StartRegisterAuthenticatorResponse =
  reg_id :: string
  reg_data :: js_value
  reg_type :: AuthType

record CompleteRegisterMFAuthenticatorParams =
  crp_id :: string
  crp_data :: js_value

record StartAuthRequestParams =
  sap_email :: "string option"
  sap_type :: "AuthType option"
  sap_purpose :: AuthPurpose
  sap_authenticatorId :: "string option"
  sap_authenticatorIndex :: "int option"

record StartAuthRequestResponse =
  req_id :: string
  req_token :: string
  req_data :: js_value
  req_type :: AuthType

record CompleteAuthRequestParams =
  cap_id :: string
  cap_data :: js_value
  cap_email :: "string option"

text \<open>
  Modelled from the spec: the type that \<open>app.api.completeAuthRequest\<close> resolves to is
  declared outside the file. Section 6 of the specification gives the call as
  \<open>completeAuthRequest(id, data, email?) -> {token}\<close>, so the response is the token it
  carries.
\<close>

type_synonym CompleteAuthRequestResponse = string

text \<open>One constructor per method of \<open>app.api\<close> that the file calls.\<close>

datatype ApiCall =
    StartRegisterAuthenticator StartRegisterAuthenticatorParams
  | CompleteRegisterAuthenticator CompleteRegisterMFAuthenticatorParams
  | DeleteAuthenticator string
  | StartAuthRequest StartAuthRequestParams
  | CompleteAuthRequest CompleteAuthRequestParams

fun is_DeleteAuthenticator :: "ApiCall \<Rightarrow> bool" where
  "is_DeleteAuthenticator (DeleteAuthenticator i) = True"
| "is_DeleteAuthenticator c = False"

section \<open>The prompt\<close>

text \<open>
  The first argument of \<open>prompt\<close> is a translated string, or for TOTP setup the
  \<open>html\<close> template holding the translated instructions, the url of the QR code and the
  secret. The second is the options object.
\<close>

datatype PromptMessage =
    PlainMessage string
  | TotpSetupMessage string string js_value

record PromptOptions =
  opt_title :: string
  opt_placeholder :: string
  opt_confirmLabel :: string
  opt_type :: string
  opt_pattern :: string

section \<open>The world and the collaborators\<close>

text \<open>
  Everything outside the file (the remote authority behind \<open>app.api\<close>, the device, the
  user at the prompt, the \<open>app\<close> singleton) is one state of an arbitrary type \<open>'w\<close>.
  \<open>calls\<close> records the \<open>app.api\<close> calls made so far, oldest first.
\<close>

record 'w World =
  ext :: 'w
  calls :: "ApiCall list"

text \<open>
  The imported collaborators. A function that awaits takes the outside state and returns
  the new one with either the thrown value (\<open>Inl\<close>) or the result (\<open>Inr\<close>).
  \<open>translate\<close> is \<open>$l\<close>.
\<close>

record 'w Env =
  webAuthnClient_supportsType :: "AuthType \<Rightarrow> 'w \<Rightarrow> bool"
  webAuthnClient_prepareRegistration :: "js_value \<Rightarrow> 'w \<Rightarrow> (thrown + js_value) \<times> 'w"
  webAuthnClient_prepareAuthentication :: "js_value \<Rightarrow> 'w \<Rightarrow> (thrown + js_value) \<times> 'w"
  openIDClient_prepareRegistration :: "js_value \<Rightarrow> 'w \<Rightarrow> (thrown + js_value) \<times> 'w"
  openIDClient_prepareAuthentication :: "js_value \<Rightarrow> 'w \<Rightarrow> (thrown + js_value) \<times> 'w"
  prompt :: "PromptMessage \<Rightarrow> PromptOptions \<Rightarrow> 'w \<Rightarrow> (thrown + js_value) \<times> 'w"
  translate :: "string \<Rightarrow> string"
  generateURL :: "js_value \<Rightarrow> string \<Rightarrow> thrown + string"
  app_account_email :: "'w \<Rightarrow> string option"
  app_state_device :: "'w \<Rightarrow> DeviceInfo"
  api_startRegisterAuthenticator ::
    "StartRegisterAuthenticatorParams \<Rightarrow> 'w \<Rightarrow> (thrown + StartRegisterAuthenticatorResponse) \<times> 'w"
  api_completeRegisterAuthenticator ::
    "CompleteRegisterMFAuthenticatorParams \<Rightarrow> 'w \<Rightarrow> (thrown + unit) \<times> 'w"
  api_deleteAuthenticator :: "string \<Rightarrow> 'w \<Rightarrow> (thrown + unit) \<times> 'w"
  api_startAuthRequest ::
    "StartAuthRequestParams \<Rightarrow> 'w \<Rightarrow> (thrown + StartAuthRequestResponse) \<times> 'w"
  api_completeAuthRequest ::
    "CompleteAuthRequestParams \<Rightarrow> 'w \<Rightarrow> (thrown + CompleteAuthRequestResponse) \<times> 'w"

text \<open>A collaborator other than \<open>app.api\<close> runs on the outside state and leaves \<open>calls\<close> alone.\<close>

definition run_ext :: "('w \<Rightarrow> 'r \<times> 'w) \<Rightarrow> 'w World \<Rightarrow> 'r \<times> 'w World" where
  "run_ext f w = (case f (ext w) of (r, x) \<Rightarrow> (r, w\<lparr>ext := x\<rparr>))"

text \<open>A method of \<open>app.api\<close> is recorded in \<open>calls\<close>, whether it resolves or rejects.\<close>

definition api_call :: "ApiCall \<Rightarrow> ('w \<Rightarrow> 'r \<times> 'w) \<Rightarrow> 'w World \<Rightarrow> 'r \<times> 'w World" where
  "api_call c f w = (case f (ext w) of (r, x) \<Rightarrow> (r, \<lparr>ext = x, calls = calls w @ [c]\<rparr>))"

text \<open>The five methods of \<open>app.api\<close> that the file calls.\<close>

definition app_api_startRegisterAuthenticator ::
  "'w Env \<Rightarrow> StartRegisterAuthenticatorParams \<Rightarrow> 'w World \<Rightarrow>
   (thrown + StartRegisterAuthenticatorResponse) \<times> 'w World" where
  "app_api_startRegisterAuthenticator env p w =
     api_call (StartRegisterAuthenticator p) (api_startRegisterAuthenticator env p) w"

definition app_api_completeRegisterAuthenticator ::
  "'w Env \<Rightarrow> CompleteRegisterMFAuthenticatorParams \<Rightarrow> 'w World \<Rightarrow> (thrown + unit) \<times> 'w World" where
  "app_api_completeRegisterAuthenticator env p w =
     api_call (CompleteRegisterAuthenticator p) (api_completeRegisterAuthenticator env p) w"

definition app_api_deleteAuthenticator ::
  "'w Env \<Rightarrow> string \<Rightarrow> 'w World \<Rightarrow> (thrown + unit) \<times> 'w World" where
  "app_api_deleteAuthenticator env i w =
     api_call (DeleteAuthenticator i) (api_deleteAuthenticator env i) w"

definition app_api_startAuthRequest ::
  "'w Env \<Rightarrow> StartAuthRequestParams \<Rightarrow> 'w World \<Rightarrow>
   (thrown + StartAuthRequestResponse) \<times> 'w World" where
  "app_api_startAuthRequest env p w =
     api_call (StartAuthRequest p) (api_startAuthRequest env p) w"

definition app_api_completeAuthRequest ::
  "'w Env \<Rightarrow> CompleteAuthRequestParams \<Rightarrow> 'w World \<Rightarrow>
   (thrown + CompleteAuthRequestResponse) \<times> 'w World" where
  "app_api_completeAuthRequest env p w =
     api_call (CompleteAuthRequest p) (api_completeAuthRequest env p) w"

text \<open>The \<open>app.api\<close> calls made between an earlier world and a later one.\<close>

definition flow_calls :: "'w World \<Rightarrow> 'w World \<Rightarrow> ApiCall list" where
  "flow_calls w w' = drop (length (calls w)) (calls w')"

section \<open>Capability registry\<close>

definition supportsAuthType :: "'w Env \<Rightarrow> 'w World \<Rightarrow> AuthType \<Rightarrow> bool" where
  "supportsAuthType env w ty =
     (let types = [Email, Totp] @
            filter (\<lambda>t. webAuthnClient_supportsType env t (ext w)) [WebAuthnPlatform, WebAuthnPortable]
      in ty \<in> set types)"

definition supportsPlatformAuthenticator :: "'w Env \<Rightarrow> 'w World \<Rightarrow> bool" where
  "supportsPlatformAuthenticator env w = supportsAuthType env w WebAuthnPlatform"

section \<open>Registration\<close>

text \<open>The options object of the two registration prompts.\<close>

definition register_prompt_options :: "'w Env \<Rightarrow> PromptOptions" where
  "register_prompt_options env =
     \<lparr>opt_title = translate env ''Add MFA-Method'',
      opt_placeholder = translate env ''Enter Verification Code'',
      opt_confirmLabel = translate env ''Submit'',
      opt_type = ''number'',
      opt_pattern = ''[0-9]*''\<rparr>"

text \<open>\<open>code ? { code } : null\<close>\<close>

definition code_or_null :: "js_value \<Rightarrow> js_value" where
  "code_or_null code = (if truthy code then JObj [(''code'', code)] else JNull)"

text \<open>
  \<open>_prepareRegisterMFAuthenticator\<close> (an identifier cannot start with an underscore
  here). \<open>console.log\<close> in the OpenID branch is not modelled.
\<close>

definition prepareRegisterMFAuthenticator ::
  "'w Env \<Rightarrow> StartRegisterAuthenticatorResponse \<Rightarrow> 'w World \<Rightarrow> (thrown + js_value) \<times> 'w World" where
  "prepareRegisterMFAuthenticator env res w =
     (case reg_type res of
        WebAuthnPlatform \<Rightarrow> run_ext (webAuthnClient_prepareRegistration env (reg_data res)) w
      | WebAuthnPortable \<Rightarrow> run_ext (webAuthnClient_prepareRegistration env (reg_data res)) w
      | Email \<Rightarrow>
          (case run_ext (prompt env
                  (PlainMessage (translate env
                     ''Please enter the confirmation code sent to your email address to proceed!''))
                  (register_prompt_options env)) w of
             (Inl e, w') \<Rightarrow> (Inl e, w')
           | (Inr code, w') \<Rightarrow> (Inr (code_or_null code), w'))
      | Totp \<Rightarrow>
          (case get_prop (reg_data res) ''secret'' of
             Inl e \<Rightarrow> (Inl e, w)
           | Inr secret \<Rightarrow>
               (case generateURL env secret
                       (case app_account_email env (ext w) of None \<Rightarrow> [] | Some a \<Rightarrow> a) of
                  Inl e \<Rightarrow> (Inl e, w)
                | Inr url \<Rightarrow>
                    (case run_ext (prompt env
                            (TotpSetupMessage (translate env
                               ''Please scan the following qr-code in your authenticator app, then enter the displayed code to confirm!'')
                               url secret)
                            (register_prompt_options env)) w of
                       (Inl e, w') \<Rightarrow> (Inl e, w')
                     | (Inr code2, w') \<Rightarrow> (Inr (code_or_null code2), w'))))
      | OpenID \<Rightarrow> run_ext (openIDClient_prepareRegistration env (reg_data res)) w
      | OtherAuthType n \<Rightarrow>
          (Inl (Err AUTHENTICATION_FAILED (Some (translate env ''Authentication type not supported!''))), w))"

text \<open>The argument object of \<open>registerAuthenticator\<close>.\<close>

record RegisterAuthenticatorArgs =
  ra_purposes :: "AuthPurpose list"
  ra_type :: AuthType
  ra_data :: js_value
  ra_device :: "DeviceInfo option"

definition start_register_params :: "RegisterAuthenticatorArgs \<Rightarrow> StartRegisterAuthenticatorParams" where
  "start_register_params args =
     \<lparr>srp_purposes = ra_purposes args, srp_type = ra_type args,
      srp_data = ra_data args, srp_device = ra_device args\<rparr>"

text \<open>The body of the \<open>try\<close> block of \<open>registerAuthenticator\<close>.\<close>

definition registerAuthenticator_try ::
  "'w Env \<Rightarrow> StartRegisterAuthenticatorResponse \<Rightarrow> 'w World \<Rightarrow> (thrown + string) \<times> 'w World" where
  "registerAuthenticator_try env res w =
     (case prepareRegisterMFAuthenticator env res w of
        (Inl e, w') \<Rightarrow> (Inl e, w')
      | (Inr prepData, w') \<Rightarrow>
          (if \<not> truthy prepData
           then (Inl (Err AUTHENTICATION_FAILED (Some (translate env ''Setup Canceled''))), w')
           else
             (case app_api_completeRegisterAuthenticator env
                     \<lparr>crp_id = reg_id res, crp_data = prepData\<rparr> w' of
                (Inl e, w'') \<Rightarrow> (Inl e, w'')
              | (Inr u, w'') \<Rightarrow> (Inr (reg_id res), w''))))"

text \<open>
  \<open>registerAuthenticator\<close>: the start call, the \<open>try\<close> block, and the \<open>catch\<close> block,
  which awaits \<open>deleteAuthenticator\<close> and then rethrows the caught value. A rejection of
  that await leaves the \<open>catch\<close> block before \<open>throw e\<close> is reached.
\<close>

definition registerAuthenticator ::
  "'w Env \<Rightarrow> RegisterAuthenticatorArgs \<Rightarrow> 'w World \<Rightarrow> (thrown + string) \<times> 'w World" where
  "registerAuthenticator env args w =
     (case app_api_startRegisterAuthenticator env (start_register_params args) w of
        (Inl e, w1) \<Rightarrow> (Inl e, w1)
      | (Inr res, w1) \<Rightarrow>
          (case registerAuthenticator_try env res w1 of
             (Inr i, w2) \<Rightarrow> (Inr i, w2)
           | (Inl e, w2) \<Rightarrow>
               (case app_api_deleteAuthenticator env (reg_id res) w2 of
                  (Inl e', w3) \<Rightarrow> (Inl e', w3)
                | (Inr u, w3) \<Rightarrow> (Inl e, w3))))"

section \<open>Authentication\<close>

definition email_auth_prompt_options :: "'w Env \<Rightarrow> PromptOptions" where
  "email_auth_prompt_options env =
     \<lparr>opt_title = translate env ''Email Authentication'',
      opt_placeholder = translate env ''Enter Verification Code'',
      opt_confirmLabel = translate env ''Submit'',
      opt_type = ''number'',
      opt_pattern = ''[0-9]*''\<rparr>"

definition totp_auth_prompt_options :: "'w Env \<Rightarrow> PromptOptions" where
  "totp_auth_prompt_options env =
     \<lparr>opt_title = translate env ''TOTP Authentication'',
      opt_placeholder = translate env ''Enter Verification Code'',
      opt_confirmLabel = translate env ''Submit'',
      opt_type = ''number'',
      opt_pattern = ''[0-9]*''\<rparr>"

text \<open>\<open>_prepareCompleteAuthRequest\<close>\<close>

definition prepareCompleteAuthRequest ::
  "'w Env \<Rightarrow> StartAuthRequestResponse \<Rightarrow> 'w World \<Rightarrow> (thrown + js_value) \<times> 'w World" where
  "prepareCompleteAuthRequest env res w =
     (case req_type res of
        WebAuthnPlatform \<Rightarrow> run_ext (webAuthnClient_prepareAuthentication env (req_data res)) w
      | WebAuthnPortable \<Rightarrow> run_ext (webAuthnClient_prepareAuthentication env (req_data res)) w
      | Email \<Rightarrow>
          (case run_ext (prompt env
                  (PlainMessage (translate env
                     ''Please enter the confirmation code sent to your email address to proceed!''))
                  (email_auth_prompt_options env)) w of
             (Inl e, w') \<Rightarrow> (Inl e, w')
           | (Inr code, w') \<Rightarrow> (Inr (code_or_null code), w'))
      | Totp \<Rightarrow>
          (case run_ext (prompt env
                  (PlainMessage (translate env
                     ''Please enter the code displayed in your authenticator app to proceed!''))
                  (totp_auth_prompt_options env)) w of
             (Inl e, w') \<Rightarrow> (Inl e, w')
           | (Inr code2, w') \<Rightarrow> (Inr (code_or_null code2), w'))
      | OpenID \<Rightarrow> run_ext (openIDClient_prepareAuthentication env (req_data res)) w
      | OtherAuthType n \<Rightarrow>
          (Inl (Err AUTHENTICATION_FAILED (Some (translate env ''Authentication type not supported!''))), w))"

text \<open>The argument object of \<open>getAuthToken\<close>.\<close>

record GetAuthTokenArgs =
  ga_purpose :: AuthPurpose
  ga_type :: "AuthType option"
  ga_email :: "string option"
  ga_authenticatorId :: "string option"
  ga_authenticatorIndex :: "int option"

text \<open>The default \<open>email = app.account?.email\<close> of the parameter.\<close>

definition auth_email :: "'w Env \<Rightarrow> GetAuthTokenArgs \<Rightarrow> 'w World \<Rightarrow> string option" where
  "auth_email env args w =
     (case ga_email args of None \<Rightarrow> app_account_email env (ext w) | Some e \<Rightarrow> Some e)"

definition start_auth_params :: "'w Env \<Rightarrow> GetAuthTokenArgs \<Rightarrow> 'w World \<Rightarrow> StartAuthRequestParams" where
  "start_auth_params env args w =
     \<lparr>sap_email = auth_email env args w, sap_type = ga_type args, sap_purpose = ga_purpose args,
      sap_authenticatorId = ga_authenticatorId args,
      sap_authenticatorIndex = ga_authenticatorIndex args\<rparr>"

definition complete_auth_params ::
  "'w Env \<Rightarrow> GetAuthTokenArgs \<Rightarrow> 'w World \<Rightarrow> StartAuthRequestResponse \<Rightarrow> js_value \<Rightarrow> CompleteAuthRequestParams" where
  "complete_auth_params env args w res d =
     \<lparr>cap_id = req_id res, cap_data = d, cap_email = auth_email env args w\<rparr>"

text \<open>
  \<open>getAuthToken\<close>. The value that \<open>completeAuthRequest\<close> resolves to is dropped; the
  function returns \<open>res.token\<close>, and \<open>res\<close> is the response of \<open>startAuthRequest\<close>.
\<close>

definition getAuthToken ::
  "'w Env \<Rightarrow> GetAuthTokenArgs \<Rightarrow> 'w World \<Rightarrow> (thrown + string) \<times> 'w World" where
  "getAuthToken env args w =
     (case app_api_startAuthRequest env (start_auth_params env args w) w of
        (Inl e, w1) \<Rightarrow> (Inl e, w1)
      | (Inr res, w1) \<Rightarrow>
          (case prepareCompleteAuthRequest env res w1 of
             (Inl e, w2) \<Rightarrow> (Inl e, w2)
           | (Inr d, w2) \<Rightarrow>
               (if \<not> truthy d
                then (Inl (Err AUTHENTICATION_FAILED (Some (translate env ''Request was canceled.''))), w2)
                else
                  (case app_api_completeAuthRequest env
                          (complete_auth_params env args w res d) w2 of
                     (Inl e, w3) \<Rightarrow> (Inl e, w3)
                   | (Inr r, w3) \<Rightarrow> (Inr (req_token res), w3)))))"

section \<open>Platform authenticator\<close>

text \<open>
  The instance field \<open>readonly platformAuthType: AuthType | null\<close> and its initialiser.
\<close>

record WebPlatform =
  platformAuthType :: "AuthType option"

definition new_WebPlatform :: WebPlatform where
  "new_WebPlatform = \<lparr>platformAuthType = Some WebAuthnPlatform\<rparr>"

definition registerPlatformAuthenticator ::
  "WebPlatform \<Rightarrow> 'w Env \<Rightarrow> AuthPurpose list \<Rightarrow> 'w World \<Rightarrow> (thrown + string) \<times> 'w World" where
  "registerPlatformAuthenticator this env purposes w =
     (case platformAuthType this of
        None \<Rightarrow> (Inl (Err NOT_SUPPORTED None), w)
      | Some t \<Rightarrow>
          registerAuthenticator env
            \<lparr>ra_purposes = purposes, ra_type = t, ra_data = JUndefined,
             ra_device = Some (app_state_device env (ext w))\<rparr> w)"

section \<open>Example collaborators\<close>

text \<open>
  Concrete collaborators on which the flows are run below. In \<open>env0\<close> the device
  supports no WebAuthn type, every api call resolves, the user types \<open>123456\<close> at the
  prompt, \<open>startRegisterAuthenticator\<close> answers with id \<open>abc\<close> and a TOTP secret,
  \<open>startAuthRequest\<close> answers with token \<open>s\<close> (and type Email when none is asked
  for), and \<open>completeAuthRequest\<close> resolves to the token \<open>t\<close>.
\<close>

definition env0 :: "unit Env" where
  "env0 =
     \<lparr>webAuthnClient_supportsType = (\<lambda>t x. False),
      webAuthnClient_prepareRegistration = (\<lambda>d x. (Inr (JObj [(''credential'', JStr ''c'')]), x)),
      webAuthnClient_prepareAuthentication = (\<lambda>d x. (Inr (JObj [(''assertion'', JStr ''a'')]), x)),
      openIDClient_prepareRegistration = (\<lambda>d x. (Inr (JObj [(''idToken'', JStr ''o'')]), x)),
      openIDClient_prepareAuthentication = (\<lambda>d x. (Inr (JObj [(''idToken'', JStr ''o'')]), x)),
      prompt = (\<lambda>m opts x. (Inr (JStr ''123456''), x)),
      translate = (\<lambda>s. s),
      generateURL = (\<lambda>secret account. Inr ''otpauth://totp/''),
      app_account_email = (\<lambda>x. Some ''user@example.com''),
      app_state_device = (\<lambda>x. DeviceInfo ''web''),
      api_startRegisterAuthenticator =
        (\<lambda>p x. (Inr \<lparr>reg_id = ''abc'', reg_data = JObj [(''secret'', JStr ''XYZ'')],
                     reg_type = srp_type p\<rparr>, x)),
      api_completeRegisterAuthenticator = (\<lambda>p x. (Inr (), x)),
      api_deleteAuthenticator = (\<lambda>i x. (Inr (), x)),
      api_startAuthRequest =
        (\<lambda>p x. (Inr \<lparr>req_id = ''r1'', req_token = ''s'', req_data = JNull,
                     req_type = (case sap_type p of None \<Rightarrow> Email | Some t \<Rightarrow> t)\<rparr>, x)),
      api_completeAuthRequest = (\<lambda>p x. (Inr ''t'', x))\<rparr>"

text \<open>The user cancels the prompt.\<close>

definition env_cancel :: "unit Env" where
  "env_cancel = env0\<lparr>prompt := (\<lambda>m opts x. (Inr JNull, x))\<rparr>"

text \<open>\<open>completeRegisterAuthenticator\<close> rejects with a transport error.\<close>

definition transport_error :: thrown where
  "transport_error = Err (OtherErrorCode ''FAILED_CONNECTION'') (Some ''transport'')"

definition env_complete_fails :: "unit Env" where
  "env_complete_fails =
     env0\<lparr>api_completeRegisterAuthenticator := (\<lambda>p x. (Inl transport_error, x))\<rparr>"

text \<open>\<open>deleteAuthenticator\<close> rejects as well.\<close>

definition rollback_error :: thrown where
  "rollback_error = Err (OtherErrorCode ''NOT_FOUND'') (Some ''rollback'')"

definition env_rollback_fails :: "unit Env" where
  "env_rollback_fails =
     env_complete_fails\<lparr>api_deleteAuthenticator := (\<lambda>i x. (Inl rollback_error, x))\<rparr>"

definition env_cancel_rollback_fails :: "unit Env" where
  "env_cancel_rollback_fails =
     env_cancel\<lparr>api_deleteAuthenticator := (\<lambda>i x. (Inl rollback_error, x))\<rparr>"

definition w0 :: "unit World" where
  "w0 = \<lparr>ext = (), calls = []\<rparr>"

definition register_args :: "AuthType \<Rightarrow> RegisterAuthenticatorArgs" where
  "register_args t =
     \<lparr>ra_purposes = [''login''], ra_type = t, ra_data = JUndefined, ra_device = None\<rparr>"

definition auth_args :: "AuthType option \<Rightarrow> GetAuthTokenArgs" where
  "auth_args t =
     \<lparr>ga_purpose = ''login'', ga_type = t, ga_email = None,
      ga_authenticatorId = None, ga_authenticatorIndex = None\<rparr>"

text \<open>
  The response of \<open>startRegisterAuthenticator\<close> and of \<open>startAuthRequest\<close> in the
  examples, and the world after a given list of api calls.
\<close>

definition example_registration :: "AuthType \<Rightarrow> StartRegisterAuthenticatorResponse" where
  "example_registration t =
     \<lparr>reg_id = ''abc'', reg_data = JObj [(''secret'', JStr ''XYZ'')], reg_type = t\<rparr>"

definition example_request :: "AuthType \<Rightarrow> StartAuthRequestResponse" where
  "example_request t = \<lparr>req_id = ''r1'', req_token = ''s'', req_data = JNull, req_type = t\<rparr>"

definition world_after :: "ApiCall list \<Rightarrow> unit World" where
  "world_after cs = \<lparr>ext = (), calls = cs\<rparr>"

text \<open>What the prepare step yields when the user types \<open>123456\<close>.\<close>

definition typed_code :: js_value where
  "typed_code = JObj [(''code'', JStr ''123456'')]"

section \<open>The api calls of each step\<close>

lemma api_call_calls: "api_call c f w = (r, w') \<Longrightarrow> calls w' = calls w @ [c]"
  by (auto simp: api_call_def split: prod.splits)

lemma run_ext_calls: "run_ext f w = (r, w') \<Longrightarrow> calls w' = calls w"
  by (auto simp: run_ext_def split: prod.splits)

lemma prepareRegister_calls:
  "prepareRegisterMFAuthenticator env res w = (r, w') \<Longrightarrow> calls w' = calls w"
  by (auto simp: prepareRegisterMFAuthenticator_def
           split: AuthType.splits sum.splits prod.splits dest: run_ext_calls)

lemma prepareComplete_calls:
  "prepareCompleteAuthRequest env res w = (r, w') \<Longrightarrow> calls w' = calls w"
  by (auto simp: prepareCompleteAuthRequest_def
           split: AuthType.splits sum.splits prod.splits dest: run_ext_calls)

lemmas app_api_defs =
  app_api_startRegisterAuthenticator_def app_api_completeRegisterAuthenticator_def
  app_api_deleteAuthenticator_def app_api_startAuthRequest_def app_api_completeAuthRequest_def

lemma startRegister_calls:
  "app_api_startRegisterAuthenticator env p w = (r, w') \<Longrightarrow> calls w' = calls w @ [StartRegisterAuthenticator p]"
  by (simp add: app_api_defs api_call_calls)

lemma completeRegister_calls:
  "app_api_completeRegisterAuthenticator env p w = (r, w') \<Longrightarrow> calls w' = calls w @ [CompleteRegisterAuthenticator p]"
  by (simp add: app_api_defs api_call_calls)

lemma delete_calls:
  "app_api_deleteAuthenticator env i w = (r, w') \<Longrightarrow> calls w' = calls w @ [DeleteAuthenticator i]"
  by (simp add: app_api_defs api_call_calls)

lemma startAuth_calls:
  "app_api_startAuthRequest env p w = (r, w') \<Longrightarrow> calls w' = calls w @ [StartAuthRequest p]"
  by (simp add: app_api_defs api_call_calls)

lemma completeAuth_calls:
  "app_api_completeAuthRequest env p w = (r, w') \<Longrightarrow> calls w' = calls w @ [CompleteAuthRequest p]"
  by (simp add: app_api_defs api_call_calls)

text \<open>The shapes of the trace.\<close>

lemma try_calls:
  assumes "registerAuthenticator_try env res w = (r, w')"
  shows "calls w' = calls w \<or> (\<exists>d. calls w' = calls w @ [CompleteRegisterAuthenticator \<lparr>crp_id = reg_id res, crp_data = d\<rparr>])"
  using assms
  by (auto simp: registerAuthenticator_try_def split: prod.splits sum.splits if_splits
      dest!: prepareRegister_calls completeRegister_calls)

lemma register_calls:
  "\<exists>rest. calls (snd (registerAuthenticator env args w)) =
     calls w @ StartRegisterAuthenticator (start_register_params args) # rest"
  by (auto simp: registerAuthenticator_def split: prod.splits sum.splits
      dest!: startRegister_calls try_calls delete_calls)

lemma auth_calls:
  "calls (snd (getAuthToken env args w)) = calls w @ [StartAuthRequest (start_auth_params env args w)] \<or>
   (\<exists>d res. calls (snd (getAuthToken env args w)) =
      calls w @ [StartAuthRequest (start_auth_params env args w),
                 CompleteAuthRequest (complete_auth_params env args w res d)])"
proof (cases "app_api_startAuthRequest env (start_auth_params env args w) w")
  case (Pair r w1)
  note c1 = startAuth_calls [OF Pair]
  show ?thesis
  proof (cases r)
    case (Inl e)
    with Pair c1 show ?thesis by (simp add: getAuthToken_def)
  next
    case (Inr res)
    obtain r2 w2 where p: "prepareCompleteAuthRequest env res w1 = (r2, w2)"
      by (cases "prepareCompleteAuthRequest env res w1")
    note c2 = prepareComplete_calls [OF p]
    show ?thesis
    proof (cases r2)
      case (Inl e)
      with Pair Inr p c1 c2 show ?thesis by (simp add: getAuthToken_def)
    next
      case d: (Inr d)
      show ?thesis
      proof (cases "truthy d")
        case False
        with Pair Inr p d c1 c2 show ?thesis by (simp add: getAuthToken_def)
      next
        case True
        obtain r3 w3 where c: "app_api_completeAuthRequest env (complete_auth_params env args w res d) w2 = (r3, w3)"
          by (cases "app_api_completeAuthRequest env (complete_auth_params env args w res d) w2")
        note c3 = completeAuth_calls [OF c]
        have "calls (snd (getAuthToken env args w)) = calls w3"
          using Pair Inr p d True c by (simp add: getAuthToken_def split: sum.splits)
        with c1 c2 c3 show ?thesis by auto
      qed
    qed
  qed
qed


text \<open>The definitions unfolded to run a flow on the example collaborators.\<close>

lemmas example_defs =
  env0_def env_cancel_def env_complete_fails_def env_rollback_fails_def
  env_cancel_rollback_fails_def w0_def register_args_def auth_args_def
  transport_error_def rollback_error_def example_registration_def example_request_def
  world_after_def typed_code_def

lemmas flow_defs =
  registerAuthenticator_def registerAuthenticator_try_def prepareRegisterMFAuthenticator_def
  getAuthToken_def prepareCompleteAuthRequest_def registerPlatformAuthenticator_def
  app_api_defs api_call_def run_ext_def flow_calls_def
  start_register_params_def start_auth_params_def complete_auth_params_def auth_email_def
  code_or_null_def register_prompt_options_def email_auth_prompt_options_def
  totp_auth_prompt_options_def supportsAuthType_def supportsPlatformAuthenticator_def
  new_WebPlatform_def

section \<open>Capability checks and the start call\<close>

text \<open>
  C1, as stated, fails. OpenID is a type that \<open>supportsAuthType\<close> reports as
  unsupported, yet \<open>registerAuthenticator\<close> with that type calls
  \<open>startRegisterAuthenticator\<close> and \<open>completeRegisterAuthenticator\<close> and resolves to
  the new id, and \<open>getAuthToken\<close> with that type calls \<open>startAuthRequest\<close> and
  \<open>completeAuthRequest\<close> and resolves to a token: neither fails with NotSupported.
\<close>

theorem unsupported_type_reaches_remote:
  "supportsAuthType env0 w0 OpenID = False
   \<and> registerAuthenticator env0 (register_args OpenID) w0 =
       (Inr ''abc'',
        world_after
          [StartRegisterAuthenticator (start_register_params (register_args OpenID)),
           CompleteRegisterAuthenticator
             \<lparr>crp_id = ''abc'', crp_data = JObj [(''idToken'', JStr ''o'')]\<rparr>])
   \<and> getAuthToken env0 (auth_args (Some OpenID)) w0 =
       (Inr ''s'',
        world_after
          [StartAuthRequest (start_auth_params env0 (auth_args (Some OpenID)) w0),
           CompleteAuthRequest
             \<lparr>cap_id = ''r1'', cap_data = JObj [(''idToken'', JStr ''o'')],
              cap_email = Some ''user@example.com''\<rparr>])"
  by (simp add: flow_defs example_defs)

text \<open>
  C1, amended. Neither flow consults the capability registry: for every explicit type,
  supported or not, the first api call of \<open>registerAuthenticator\<close> is
  \<open>startRegisterAuthenticator\<close> carrying that type, and the first api call of
  \<open>getAuthToken\<close> is \<open>startAuthRequest\<close> carrying that type.
\<close>

theorem start_call_is_unguarded:
  "(\<exists>rest. flow_calls w (snd (registerAuthenticator env rargs w)) =
       StartRegisterAuthenticator (start_register_params rargs) # rest)
   \<and> srp_type (start_register_params rargs) = ra_type rargs
   \<and> (\<exists>rest. flow_calls w (snd (getAuthToken env gargs w)) =
       StartAuthRequest (start_auth_params env gargs w) # rest)
   \<and> sap_type (start_auth_params env gargs w) = ga_type gargs"
proof -
  obtain rest where "calls (snd (registerAuthenticator env rargs w)) =
      calls w @ StartRegisterAuthenticator (start_register_params rargs) # rest"
    using register_calls by blast
  then have a: "\<exists>rest. flow_calls w (snd (registerAuthenticator env rargs w)) =
       StartRegisterAuthenticator (start_register_params rargs) # rest"
    by (simp add: flow_calls_def)
  have b: "\<exists>rest. flow_calls w (snd (getAuthToken env gargs w)) =
       StartAuthRequest (start_auth_params env gargs w) # rest"
    using auth_calls [of env gargs w] by (auto simp: flow_calls_def)
  show ?thesis using a b
    by (simp add: start_register_params_def start_auth_params_def)
qed

text \<open>
  C10. \<open>supportsAuthType\<close> is true exactly for Email, Totp, and a WebAuthn type that
  \<open>webAuthnClient.supportsType\<close> accepts. Email and Totp are supported whatever the
  device says, OpenID never is, although both prepare dispatchers have an OpenID branch
  that hands the challenge to the OpenID client.
\<close>

theorem supportsAuthType_characterised:
  "supportsAuthType env w ty =
     (ty = Email \<or> ty = Totp \<or>
      ((ty = WebAuthnPlatform \<or> ty = WebAuthnPortable) \<and> webAuthnClient_supportsType env ty (ext w)))
   \<and> supportsAuthType env w Email
   \<and> supportsAuthType env w Totp
   \<and> \<not> supportsAuthType env w OpenID
   \<and> prepareRegisterMFAuthenticator env (res\<lparr>reg_type := OpenID\<rparr>) w =
       run_ext (openIDClient_prepareRegistration env (reg_data res)) w
   \<and> prepareCompleteAuthRequest env (res'\<lparr>req_type := OpenID\<rparr>) w =
       run_ext (openIDClient_prepareAuthentication env (req_data res')) w"
  by (auto simp: supportsAuthType_def prepareRegisterMFAuthenticator_def
      prepareCompleteAuthRequest_def)

section \<open>Registration: rollback\<close>

text \<open>
  C5. When the prepare step returned response data and
  \<open>completeRegisterAuthenticator\<close> rejects, the api calls of the flow are the start
  call, the complete call and one \<open>deleteAuthenticator\<close> call, whose argument is the id
  that \<open>startRegisterAuthenticator\<close> returned.
\<close>

theorem complete_failure_deletes_once:
  assumes start: "app_api_startRegisterAuthenticator env (start_register_params args) w = (Inr res, w1)"
    and prep: "prepareRegisterMFAuthenticator env res w1 = (Inr d, w2)"
    and data: "truthy d"
    and compl: "app_api_completeRegisterAuthenticator env \<lparr>crp_id = reg_id res, crp_data = d\<rparr> w2 = (Inl e, w3)"
  shows "flow_calls w (snd (registerAuthenticator env args w)) =
           [StartRegisterAuthenticator (start_register_params args),
            CompleteRegisterAuthenticator \<lparr>crp_id = reg_id res, crp_data = d\<rparr>,
            DeleteAuthenticator (reg_id res)]
         \<and> filter is_DeleteAuthenticator (flow_calls w (snd (registerAuthenticator env args w))) =
           [DeleteAuthenticator (reg_id res)]"
proof -
  obtain r4 w4 where del: "app_api_deleteAuthenticator env (reg_id res) w3 = (r4, w4)"
    by (cases "app_api_deleteAuthenticator env (reg_id res) w3")
  have "snd (registerAuthenticator env args w) = w4"
    using start prep data compl del
    by (simp add: registerAuthenticator_def registerAuthenticator_try_def split: sum.splits)
  moreover have "calls w4 = calls w @
      [StartRegisterAuthenticator (start_register_params args),
       CompleteRegisterAuthenticator \<lparr>crp_id = reg_id res, crp_data = d\<rparr>,
       DeleteAuthenticator (reg_id res)]"
    using startRegister_calls [OF start] prepareRegister_calls [OF prep]
      completeRegister_calls [OF compl] delete_calls [OF del]
    by simp
  ultimately show ?thesis by (simp add: flow_calls_def)
qed

text \<open>
  C5 on an example: TOTP registration, the user types the code, and
  \<open>completeRegisterAuthenticator\<close> rejects with a transport error.
\<close>

theorem complete_failure_deletes_once_witness:
  "app_api_startRegisterAuthenticator env_complete_fails
       (start_register_params (register_args Totp)) w0 =
     (Inr (example_registration Totp),
      world_after [StartRegisterAuthenticator (start_register_params (register_args Totp))])
   \<and> truthy typed_code
   \<and> flow_calls w0 (snd (registerAuthenticator env_complete_fails (register_args Totp) w0)) =
       [StartRegisterAuthenticator (start_register_params (register_args Totp)),
        CompleteRegisterAuthenticator \<lparr>crp_id = ''abc'', crp_data = typed_code\<rparr>,
        DeleteAuthenticator ''abc'']
   \<and> filter is_DeleteAuthenticator
         (flow_calls w0 (snd (registerAuthenticator env_complete_fails (register_args Totp) w0))) =
       [DeleteAuthenticator ''abc'']"
proof -
  let ?p = "start_register_params (register_args Totp)"
  let ?c = "\<lparr>crp_id = reg_id (example_registration Totp), crp_data = typed_code\<rparr>"
  have start: "app_api_startRegisterAuthenticator env_complete_fails ?p w0 =
      (Inr (example_registration Totp), world_after [StartRegisterAuthenticator ?p])"
    by (simp add: flow_defs example_defs)
  have prep: "prepareRegisterMFAuthenticator env_complete_fails (example_registration Totp)
        (world_after [StartRegisterAuthenticator ?p]) =
      (Inr typed_code, world_after [StartRegisterAuthenticator ?p])"
    by (simp add: flow_defs example_defs)
  have data: "truthy typed_code"
    by (simp add: typed_code_def)
  have compl: "app_api_completeRegisterAuthenticator env_complete_fails ?c
        (world_after [StartRegisterAuthenticator ?p]) =
      (Inl transport_error,
       world_after [StartRegisterAuthenticator ?p, CompleteRegisterAuthenticator ?c])"
    by (simp add: flow_defs example_defs)
  show ?thesis
    using complete_failure_deletes_once [OF start prep data compl] start data
    by (simp add: example_registration_def)
qed

text \<open>
  C2, as stated, fails. TOTP registration, the user types the code,
  \<open>completeRegisterAuthenticator\<close> rejects with a transport error and the rollback
  \<open>deleteAuthenticator\<close> rejects too: the caller receives the error of the rollback
  call, not the transport error.
\<close>

theorem rollback_failure_reaches_caller:
  "fst (api_completeRegisterAuthenticator env_rollback_fails
          \<lparr>crp_id = ''abc'', crp_data = typed_code\<rparr> ()) = Inl transport_error
   \<and> fst (api_deleteAuthenticator env_rollback_fails ''abc'' ()) = Inl rollback_error
   \<and> registerAuthenticator env_rollback_fails (register_args Totp) w0 =
       (Inl rollback_error,
        world_after
          [StartRegisterAuthenticator (start_register_params (register_args Totp)),
           CompleteRegisterAuthenticator \<lparr>crp_id = ''abc'', crp_data = typed_code\<rparr>,
           DeleteAuthenticator ''abc''])
   \<and> rollback_error \<noteq> transport_error"
  by (simp add: flow_defs example_defs)

text \<open>
  C2, amended. Let the start call have returned \<open>res\<close>, and let the \<open>try\<close> block fail
  with \<open>e\<close>: the prepare step threw \<open>e\<close>, or it returned nothing and \<open>e\<close> is the
  "Setup Canceled" error, or \<open>completeRegisterAuthenticator\<close> rejected with \<open>e\<close>. Then
  the outcome is decided by the rollback call \<open>deleteAuthenticator(res.id)\<close>: when it
  resolves the caller receives \<open>e\<close>, when it rejects the caller receives the error of
  the rollback call.
\<close>

theorem rollback_decides_error:
  assumes start: "app_api_startRegisterAuthenticator env (start_register_params args) w = (Inr res, w1)"
    and fail:
      "prepareRegisterMFAuthenticator env res w1 = (Inl e, w2)
       \<or> (\<exists>d. prepareRegisterMFAuthenticator env res w1 = (Inr d, w2) \<and> \<not> truthy d
              \<and> e = Err AUTHENTICATION_FAILED (Some (translate env ''Setup Canceled'')))
       \<or> (\<exists>d wp. prepareRegisterMFAuthenticator env res w1 = (Inr d, wp) \<and> truthy d
              \<and> app_api_completeRegisterAuthenticator env
                    \<lparr>crp_id = reg_id res, crp_data = d\<rparr> wp = (Inl e, w2))"
  shows "registerAuthenticator env args w =
           (case app_api_deleteAuthenticator env (reg_id res) w2 of
              (Inl e', w3) \<Rightarrow> (Inl e', w3)
            | (Inr u, w3) \<Rightarrow> (Inl e, w3))"
proof -
  have "registerAuthenticator_try env res w1 = (Inl e, w2)"
    using fail by (auto simp: registerAuthenticator_try_def)
  then show ?thesis
    using start by (simp add: registerAuthenticator_def)
qed

text \<open>
  C2, amended, on an example: \<open>completeRegisterAuthenticator\<close> rejects with a
  transport error and the rollback call resolves; the caller receives the transport
  error.
\<close>

theorem rollback_decides_error_witness:
  "app_api_startRegisterAuthenticator env_complete_fails
       (start_register_params (register_args Totp)) w0 =
     (Inr (example_registration Totp),
      world_after [StartRegisterAuthenticator (start_register_params (register_args Totp))])
   \<and> registerAuthenticator env_complete_fails (register_args Totp) w0 =
       (Inl transport_error,
        world_after
          [StartRegisterAuthenticator (start_register_params (register_args Totp)),
           CompleteRegisterAuthenticator \<lparr>crp_id = ''abc'', crp_data = typed_code\<rparr>,
           DeleteAuthenticator ''abc''])"
proof -
  let ?p = "start_register_params (register_args Totp)"
  let ?c = "\<lparr>crp_id = reg_id (example_registration Totp), crp_data = typed_code\<rparr>"
  let ?w1 = "world_after [StartRegisterAuthenticator ?p]"
  let ?w2 = "world_after [StartRegisterAuthenticator ?p, CompleteRegisterAuthenticator ?c]"
  have start: "app_api_startRegisterAuthenticator env_complete_fails ?p w0 =
      (Inr (example_registration Totp), ?w1)"
    by (simp add: flow_defs example_defs)
  have prep: "prepareRegisterMFAuthenticator env_complete_fails (example_registration Totp) ?w1 =
      (Inr typed_code, ?w1)"
    by (simp add: flow_defs example_defs)
  have compl: "app_api_completeRegisterAuthenticator env_complete_fails ?c ?w1 =
      (Inl transport_error, ?w2)"
    by (simp add: flow_defs example_defs)
  have fail:
    "prepareRegisterMFAuthenticator env_complete_fails (example_registration Totp) ?w1 =
         (Inl transport_error, ?w2)
     \<or> (\<exists>d. prepareRegisterMFAuthenticator env_complete_fails (example_registration Totp) ?w1 =
               (Inr d, ?w2) \<and> \<not> truthy d
            \<and> transport_error =
               Err AUTHENTICATION_FAILED (Some (translate env_complete_fails ''Setup Canceled'')))
     \<or> (\<exists>d wp. prepareRegisterMFAuthenticator env_complete_fails (example_registration Totp) ?w1 =
               (Inr d, wp) \<and> truthy d
            \<and> app_api_completeRegisterAuthenticator env_complete_fails
                 \<lparr>crp_id = reg_id (example_registration Totp), crp_data = d\<rparr> wp =
               (Inl transport_error, ?w2))"
    using prep compl by (simp add: typed_code_def)
  have del: "app_api_deleteAuthenticator env_complete_fails
        (reg_id (example_registration Totp)) ?w2 =
      (Inr (), world_after [StartRegisterAuthenticator ?p, CompleteRegisterAuthenticator ?c,
                            DeleteAuthenticator ''abc''])"
    by (simp add: flow_defs example_defs)
  show ?thesis
    using rollback_decides_error [OF start fail] start del
    by (simp add: example_registration_def)
qed

text \<open>
  C6, as stated, fails. TOTP registration, the user cancels the prompt, and the rollback
  \<open>deleteAuthenticator\<close> rejects: \<open>deleteAuthenticator\<close> was called with the id of the
  start call, but the caller receives the error of the rollback call, not
  AuthenticationFailed with "Setup Canceled".
\<close>

theorem cancel_with_failed_rollback:
  "prepareRegisterMFAuthenticator env_cancel_rollback_fails (example_registration Totp)
       (world_after [StartRegisterAuthenticator (start_register_params (register_args Totp))]) =
     (Inr JNull,
      world_after [StartRegisterAuthenticator (start_register_params (register_args Totp))])
   \<and> registerAuthenticator env_cancel_rollback_fails (register_args Totp) w0 =
       (Inl rollback_error,
        world_after
          [StartRegisterAuthenticator (start_register_params (register_args Totp)),
           DeleteAuthenticator ''abc''])
   \<and> rollback_error \<noteq>
       Err AUTHENTICATION_FAILED (Some (translate env_cancel_rollback_fails ''Setup Canceled''))"
  by (simp add: flow_defs example_defs)

text \<open>
  C6, amended. When the prepare step reports abandoned or returns no data, the api calls
  of the flow are the start call and one \<open>deleteAuthenticator\<close> call with the id of the
  start call; when that call resolves, \<open>registerAuthenticator\<close> fails with
  AuthenticationFailed and the message "Setup Canceled", and when it rejects, with the
  error of that call.
\<close>

theorem cancel_deletes_and_reports:
  assumes start: "app_api_startRegisterAuthenticator env (start_register_params args) w = (Inr res, w1)"
    and prep: "prepareRegisterMFAuthenticator env res w1 = (Inr d, w2)"
    and nodata: "\<not> truthy d"
  shows "flow_calls w (snd (registerAuthenticator env args w)) =
           [StartRegisterAuthenticator (start_register_params args),
            DeleteAuthenticator (reg_id res)]
         \<and> registerAuthenticator env args w =
           (case app_api_deleteAuthenticator env (reg_id res) w2 of
              (Inl e', w3) \<Rightarrow> (Inl e', w3)
            | (Inr u, w3) \<Rightarrow>
                (Inl (Err AUTHENTICATION_FAILED (Some (translate env ''Setup Canceled''))), w3))"
proof -
  obtain r3 w3 where del: "app_api_deleteAuthenticator env (reg_id res) w2 = (r3, w3)"
    by (cases "app_api_deleteAuthenticator env (reg_id res) w2")
  have run: "registerAuthenticator env args w =
      (case app_api_deleteAuthenticator env (reg_id res) w2 of
         (Inl e', w3) \<Rightarrow> (Inl e', w3)
       | (Inr u, w3) \<Rightarrow>
           (Inl (Err AUTHENTICATION_FAILED (Some (translate env ''Setup Canceled''))), w3))"
    using start prep nodata
    by (simp add: registerAuthenticator_def registerAuthenticator_try_def)
  then have "snd (registerAuthenticator env args w) = w3"
    using del by (simp split: sum.splits)
  moreover have "calls w3 = calls w @
      [StartRegisterAuthenticator (start_register_params args), DeleteAuthenticator (reg_id res)]"
    using startRegister_calls [OF start] prepareRegister_calls [OF prep] delete_calls [OF del]
    by simp
  ultimately show ?thesis using run by (simp add: flow_calls_def)
qed

text \<open>
  C6, amended, on scenario B: TOTP registration, start returns id \<open>abc\<close> with secret
  \<open>XYZ\<close>, the user cancels the prompt, the rollback call resolves.
\<close>

theorem cancel_deletes_and_reports_witness:
  "app_api_startRegisterAuthenticator env_cancel
       (start_register_params (register_args Totp)) w0 =
     (Inr (example_registration Totp),
      world_after [StartRegisterAuthenticator (start_register_params (register_args Totp))])
   \<and> \<not> truthy JNull
   \<and> registerAuthenticator env_cancel (register_args Totp) w0 =
       (Inl (Err AUTHENTICATION_FAILED (Some ''Setup Canceled'')),
        world_after
          [StartRegisterAuthenticator (start_register_params (register_args Totp)),
           DeleteAuthenticator ''abc''])"
proof -
  let ?p = "start_register_params (register_args Totp)"
  let ?w1 = "world_after [StartRegisterAuthenticator ?p]"
  have start: "app_api_startRegisterAuthenticator env_cancel ?p w0 =
      (Inr (example_registration Totp), ?w1)"
    by (simp add: flow_defs example_defs)
  have prep: "prepareRegisterMFAuthenticator env_cancel (example_registration Totp) ?w1 =
      (Inr JNull, ?w1)"
    by (simp add: flow_defs example_defs)
  have nodata: "\<not> truthy JNull"
    by simp
  have del: "app_api_deleteAuthenticator env_cancel (reg_id (example_registration Totp)) ?w1 =
      (Inr (), world_after [StartRegisterAuthenticator ?p, DeleteAuthenticator ''abc''])"
    by (simp add: flow_defs example_defs)
  have tr: "translate env_cancel ''Setup Canceled'' = ''Setup Canceled''"
    by (simp add: example_defs)
  show ?thesis
    using cancel_deletes_and_reports [OF start prep nodata] start del tr
    by simp
qed

text \<open>
  C9. A registration that resolves returns the id of the response of its own
  \<open>startRegisterAuthenticator\<close> call.
\<close>

theorem registered_id_is_start_id:
  assumes ok: "registerAuthenticator env args w = (Inr i, w')"
  shows "\<exists>res w1. app_api_startRegisterAuthenticator env (start_register_params args) w =
           (Inr res, w1) \<and> i = reg_id res"
proof (cases "app_api_startRegisterAuthenticator env (start_register_params args) w")
  case (Pair r w1)
  show ?thesis
  proof (cases r)
    case (Inl e)
    with Pair ok show ?thesis by (simp add: registerAuthenticator_def)
  next
    case (Inr res)
    with Pair ok have "i = reg_id res"
      by (auto simp: registerAuthenticator_def registerAuthenticator_try_def
          split: prod.splits sum.splits if_splits)
    with Pair Inr show ?thesis by simp
  qed
qed

text \<open>C9 on an example: TOTP registration in which every step resolves.\<close>

theorem registered_id_is_start_id_witness:
  "registerAuthenticator env0 (register_args Totp) w0 =
     (Inr ''abc'',
      world_after
        [StartRegisterAuthenticator (start_register_params (register_args Totp)),
         CompleteRegisterAuthenticator \<lparr>crp_id = ''abc'', crp_data = typed_code\<rparr>])
   \<and> (\<exists>res w1. app_api_startRegisterAuthenticator env0
          (start_register_params (register_args Totp)) w0 = (Inr res, w1) \<and> ''abc'' = reg_id res)"
proof -
  have ok: "registerAuthenticator env0 (register_args Totp) w0 =
     (Inr ''abc'',
      world_after
        [StartRegisterAuthenticator (start_register_params (register_args Totp)),
         CompleteRegisterAuthenticator \<lparr>crp_id = ''abc'', crp_data = typed_code\<rparr>])"
    by (simp add: flow_defs example_defs)
  show ?thesis
    using registered_id_is_start_id [OF ok] ok by simp
qed

section \<open>Authentication\<close>

text \<open>
  C4, as stated, fails. Email authentication in which every step resolves:
  \<open>startAuthRequest\<close> answers with token \<open>s\<close>, \<open>completeAuthRequest\<close> resolves to
  token \<open>t\<close>, and \<open>getAuthToken\<close> resolves to \<open>s\<close>.
\<close>

theorem complete_token_is_dropped:
  "fst (api_completeAuthRequest env0
          \<lparr>cap_id = ''r1'', cap_data = typed_code, cap_email = Some ''user@example.com''\<rparr> ()) =
     Inr ''t''
   \<and> getAuthToken env0 (auth_args None) w0 =
       (Inr ''s'',
        world_after
          [StartAuthRequest (start_auth_params env0 (auth_args None) w0),
           CompleteAuthRequest
             \<lparr>cap_id = ''r1'', cap_data = typed_code, cap_email = Some ''user@example.com''\<rparr>])
   \<and> ''s'' \<noteq> ''t''"
  by (simp add: flow_defs example_defs)

text \<open>
  C4, amended. In every authentication flow whose \<open>completeAuthRequest\<close> call resolves,
  \<open>getAuthToken\<close> returns the \<open>token\<close> field of the response of \<open>startAuthRequest\<close>,
  verbatim; what \<open>completeAuthRequest\<close> resolves to is not used.
\<close>

theorem token_is_start_token:
  assumes start: "app_api_startAuthRequest env (start_auth_params env args w) w = (Inr res, w1)"
    and prep: "prepareCompleteAuthRequest env res w1 = (Inr d, w2)"
    and data: "truthy d"
    and compl: "app_api_completeAuthRequest env (complete_auth_params env args w res d) w2 = (Inr r, w3)"
  shows "getAuthToken env args w = (Inr (req_token res), w3)"
  using start prep data compl by (simp add: getAuthToken_def)

text \<open>
  C4, amended, on scenario A: no explicit type, the authority picks Email, the user types
  \<open>123456\<close>.
\<close>

theorem token_is_start_token_witness:
  "app_api_startAuthRequest env0 (start_auth_params env0 (auth_args None) w0) w0 =
     (Inr (example_request Email),
      world_after [StartAuthRequest (start_auth_params env0 (auth_args None) w0)])
   \<and> truthy typed_code
   \<and> req_token (example_request Email) = ''s''
   \<and> fst (getAuthToken env0 (auth_args None) w0) = Inr ''s''"
proof -
  let ?p = "start_auth_params env0 (auth_args None) w0"
  let ?w1 = "world_after [StartAuthRequest ?p]"
  let ?c = "complete_auth_params env0 (auth_args None) w0 (example_request Email) typed_code"
  have start: "app_api_startAuthRequest env0 ?p w0 = (Inr (example_request Email), ?w1)"
    by (simp add: flow_defs example_defs)
  have prep: "prepareCompleteAuthRequest env0 (example_request Email) ?w1 = (Inr typed_code, ?w1)"
    by (simp add: flow_defs example_defs)
  have data: "truthy typed_code"
    by (simp add: typed_code_def)
  have compl: "app_api_completeAuthRequest env0 ?c ?w1 =
      (Inr ''t'', world_after [StartAuthRequest ?p, CompleteAuthRequest ?c])"
    by (simp add: flow_defs example_defs)
  show ?thesis
    using token_is_start_token [OF start prep data compl] start data
    by (simp add: example_request_def)
qed

text \<open>
  C7. When the prepare step of an authentication flow reports abandoned or returns an
  empty result, \<open>getAuthToken\<close> fails with AuthenticationFailed and the message
  "Request was canceled."; the flow ends in the world the prepare step left, so
  \<open>startAuthRequest\<close> is its only api call and \<open>completeAuthRequest\<close> is not called.
\<close>

theorem canceled_request_stops:
  assumes start: "app_api_startAuthRequest env (start_auth_params env args w) w = (Inr res, w1)"
    and prep: "prepareCompleteAuthRequest env res w1 = (Inr d, w2)"
    and nodata: "\<not> truthy d"
  shows "getAuthToken env args w =
           (Inl (Err AUTHENTICATION_FAILED (Some (translate env ''Request was canceled.''))), w2)
         \<and> flow_calls w (snd (getAuthToken env args w)) =
           [StartAuthRequest (start_auth_params env args w)]"
proof -
  have run: "getAuthToken env args w =
      (Inl (Err AUTHENTICATION_FAILED (Some (translate env ''Request was canceled.''))), w2)"
    using start prep nodata by (simp add: getAuthToken_def)
  have "calls w2 = calls w @ [StartAuthRequest (start_auth_params env args w)]"
    using startAuth_calls [OF start] prepareComplete_calls [OF prep] by simp
  then show ?thesis using run by (simp add: flow_calls_def)
qed

text \<open>C7 on an example: Email authentication, the user cancels the prompt.\<close>

theorem canceled_request_stops_witness:
  "app_api_startAuthRequest env_cancel (start_auth_params env_cancel (auth_args None) w0) w0 =
     (Inr (example_request Email),
      world_after [StartAuthRequest (start_auth_params env_cancel (auth_args None) w0)])
   \<and> \<not> truthy JNull
   \<and> getAuthToken env_cancel (auth_args None) w0 =
       (Inl (Err AUTHENTICATION_FAILED (Some ''Request was canceled.'')),
        world_after [StartAuthRequest (start_auth_params env_cancel (auth_args None) w0)])
   \<and> flow_calls w0 (snd (getAuthToken env_cancel (auth_args None) w0)) =
       [StartAuthRequest (start_auth_params env_cancel (auth_args None) w0)]"
proof -
  let ?p = "start_auth_params env_cancel (auth_args None) w0"
  let ?w1 = "world_after [StartAuthRequest ?p]"
  have start: "app_api_startAuthRequest env_cancel ?p w0 = (Inr (example_request Email), ?w1)"
    by (simp add: flow_defs example_defs)
  have prep: "prepareCompleteAuthRequest env_cancel (example_request Email) ?w1 = (Inr JNull, ?w1)"
    by (simp add: flow_defs example_defs)
  have nodata: "\<not> truthy JNull"
    by simp
  have tr: "translate env_cancel ''Request was canceled.'' = ''Request was canceled.''"
    by (simp add: example_defs)
  show ?thesis
    using canceled_request_stops [OF start prep nodata] start tr
    by (simp add: flow_calls_def w0_def world_after_def)
qed

text \<open>
  C8. Whatever the collaborators do, the api calls of an authentication flow are
  \<open>startAuthRequest\<close>, followed by at most one \<open>completeAuthRequest\<close>; no
  \<open>deleteAuthenticator\<close> call is among them.
\<close>

theorem auth_flow_never_deletes:
  "DeleteAuthenticator i \<notin> set (flow_calls w (snd (getAuthToken env args w)))
   \<and> filter is_DeleteAuthenticator (flow_calls w (snd (getAuthToken env args w))) = []"
  using auth_calls [of env args w] by (auto simp: flow_calls_def)

section \<open>Platform authenticator\<close>

text \<open>
  C3, as stated, fails. The device supports no WebAuthn type, so
  \<open>supportsPlatformAuthenticator\<close> is false; \<open>registerPlatformAuthenticator\<close> on a
  fresh \<open>WebPlatform\<close> nevertheless calls \<open>startRegisterAuthenticator\<close> with type
  WebAuthnPlatform and \<open>completeRegisterAuthenticator\<close>, and resolves to the new id.
\<close>

theorem platform_register_ignores_capability:
  "supportsPlatformAuthenticator env0 w0 = False
   \<and> registerPlatformAuthenticator new_WebPlatform env0 [''login''] w0 =
       (Inr ''abc'',
        world_after
          [StartRegisterAuthenticator
             \<lparr>srp_purposes = [''login''], srp_type = WebAuthnPlatform, srp_data = JUndefined,
              srp_device = Some (DeviceInfo ''web'')\<rparr>,
           CompleteRegisterAuthenticator
             \<lparr>crp_id = ''abc'', crp_data = JObj [(''credential'', JStr ''c'')]\<rparr>])"
  by (simp add: flow_defs example_defs)

text \<open>
  C3, amended. The guard of \<open>registerPlatformAuthenticator\<close> is the field
  \<open>platformAuthType\<close>, not the capability registry. When the field is null the call
  fails with NotSupported in the unchanged world, so with no api call. When it holds a
  type, the call is \<open>registerAuthenticator\<close> with that type and the device
  \<open>app.state.device\<close>. On a \<open>WebPlatform\<close> the field is initialised to
  WebAuthnPlatform, so the second case applies whatever the capability registry reports.
\<close>

theorem registerPlatformAuthenticator_guard:
  "(platformAuthType this = None \<longrightarrow>
      registerPlatformAuthenticator this env purposes w = (Inl (Err NOT_SUPPORTED None), w)
      \<and> flow_calls w (snd (registerPlatformAuthenticator this env purposes w)) = [])
   \<and> (\<forall>t. platformAuthType this = Some t \<longrightarrow>
        registerPlatformAuthenticator this env purposes w =
          registerAuthenticator env
            \<lparr>ra_purposes = purposes, ra_type = t, ra_data = JUndefined,
             ra_device = Some (app_state_device env (ext w))\<rparr> w)
   \<and> registerPlatformAuthenticator new_WebPlatform env purposes w =
        registerAuthenticator env
          \<lparr>ra_purposes = purposes, ra_type = WebAuthnPlatform, ra_data = JUndefined,
           ra_device = Some (app_state_device env (ext w))\<rparr> w"
  by (simp add: registerPlatformAuthenticator_def new_WebPlatform_def flow_calls_def)

text \<open>
  C3, amended, on examples: a platform whose \<open>platformAuthType\<close> is null, and a fresh
  \<open>WebPlatform\<close> on a device on which WebAuthnPlatform is supported.
\<close>

theorem registerPlatformAuthenticator_guard_witness:
  "platformAuthType \<lparr>platformAuthType = None\<rparr> = None
   \<and> registerPlatformAuthenticator \<lparr>platformAuthType = None\<rparr> env0 [''login''] w0 =
       (Inl (Err NOT_SUPPORTED None), w0)
   \<and> flow_calls w0 (snd (registerPlatformAuthenticator \<lparr>platformAuthType = None\<rparr> env0 [''login''] w0)) = []
   \<and> platformAuthType new_WebPlatform = Some WebAuthnPlatform
   \<and> registerPlatformAuthenticator new_WebPlatform env0 [''login''] w0 =
       registerAuthenticator env0
         \<lparr>ra_purposes = [''login''], ra_type = WebAuthnPlatform, ra_data = JUndefined,
          ra_device = Some (DeviceInfo ''web'')\<rparr> w0"
proof -
  have none: "platformAuthType \<lparr>platformAuthType = None\<rparr> = None"
    by simp
  have some: "platformAuthType new_WebPlatform = Some WebAuthnPlatform"
    by (simp add: new_WebPlatform_def)
  have dev: "app_state_device env0 (ext w0) = DeviceInfo ''web''"
    by (simp add: example_defs)
  show ?thesis
    using registerPlatformAuthenticator_guard [of "\<lparr>platformAuthType = None\<rparr>" env0 "[''login'']" w0]
      registerPlatformAuthenticator_guard [of new_WebPlatform env0 "[''login'']" w0]
      none some dev
    by (simp add: flow_calls_def)
qed

end
